theory Spec2Isabelle
  imports Complex_Main "HOL-Library.Char_ord" "HOL-Library.List_Lexorder" "HOL-Library.Multiset"
begin

section \<open>Errors\<close>

text \<open>
  The exceptions that the modelled functions can raise. A function that can raise returns
  \<open>error + 'a\<close>, with \<open>Inl\<close> for the exception.
\<close>

datatype error =
    ValueError
  | KeyError
  | TypeError
  | UnboundLocalError
  | DoesNotExist
  | MultipleObjectsReturned

section \<open>Time of day and its string forms\<close>

text \<open>
  A \<open>datetime.time\<close> value (and the time-of-day part of \<open>datetime.now()\<close>). Python keeps
  \<open>hour < 24\<close>, \<open>minute < 60\<close>, \<open>second < 60\<close> and \<open>microsecond < 1000000\<close>.
\<close>

record time =
  hour :: nat
  minute :: nat
  second :: nat
  microsecond :: nat

definition valid_time :: "time \<Rightarrow> bool" where
  "valid_time t \<longleftrightarrow> hour t < 24 \<and> minute t < 60 \<and> second t < 60 \<and> microsecond t < 1000000"

text \<open>The order of \<open>datetime.time\<close> values: hour, then minute, second, microsecond.\<close>

definition time_lt :: "time \<Rightarrow> time \<Rightarrow> bool" where
  "time_lt a b \<longleftrightarrow>
     hour a < hour b \<or> (hour a = hour b \<and>
       (minute a < minute b \<or> (minute a = minute b \<and>
         (second a < second b \<or> (second a = second b \<and> microsecond a < microsecond b)))))"

text \<open>
  The time of day at the resolution of whole seconds, which is all that the format
  \<open>%H:%M:%S\<close> keeps of \<open>datetime.now()\<close>.
\<close>

definition whole_seconds :: "time \<Rightarrow> time" where
  "whole_seconds t = t\<lparr>microsecond := 0\<rparr>"

definition digit_char :: "nat \<Rightarrow> char" where
  "digit_char d = char_of (48 + d)"

text \<open>\<open>pad_dec k n\<close> is \<open>n\<close> in decimal, zero-padded to \<open>k\<close> digits, for \<open>n < 10 ^ k\<close>.\<close>

fun pad_dec :: "nat \<Rightarrow> nat \<Rightarrow> string" where
  "pad_dec 0 n = []"
| "pad_dec (Suc k) n = pad_dec k (n div 10) @ [digit_char (n mod 10)]"

text \<open>\<open>now.strftime("%H:%M:%S")\<close>.\<close>

definition strftime_H_M_S :: "time \<Rightarrow> string" where
  "strftime_H_M_S t =
     pad_dec 2 (hour t) @ '':'' @ pad_dec 2 (minute t) @ '':'' @ pad_dec 2 (second t)"

text \<open>
  \<open>str(t)\<close> of a \<open>datetime.time\<close>: its ISO format, \<open>HH:MM:SS\<close>, followed by
  \<open>.ffffff\<close> when the microsecond is not zero.
\<close>

definition time_str :: "time \<Rightarrow> string" where
  "time_str t =
     strftime_H_M_S t @ (if microsecond t = 0 then [] else ''.'' @ pad_dec 6 (microsecond t))"

text \<open>
  \<open>t.strftime('%I:%M %p')\<close> in the C locale: the hour on the 12-hour clock, zero-padded,
  and \<open>AM\<close> or \<open>PM\<close>.
\<close>

definition strftime_I_M_p :: "time \<Rightarrow> string" where
  "strftime_I_M_p t =
     pad_dec 2 (if hour t mod 12 = 0 then 12 else hour t mod 12) @ '':'' @
     pad_dec 2 (minute t) @ '' '' @ (if hour t < 12 then ''AM'' else ''PM'')"

subsection \<open>Parsing: \<open>datetime.strptime(s, "%I:%M %p").time()\<close>\<close>

text \<open>
  The standard library compiles the format to the regular expression
  \<^verbatim>\<open>(?P<I>1[0-2]|0[1-9]|[1-9]):(?P<M>[0-5]\d|\d)\s+(?P<p>am|pm)\<close>, matched ignoring
  case at the start of the string; text left after the match is a \<open>ValueError\<close>, as is
  no match. The alternatives of each group exclude one another given what follows them,
  so the match is found without backtracking. A character is a code point below 256
  (\<open>\s\<close> matches the ASCII white space, the separators 0x1C to 0x1F, 0x85 and 0xA0 among
  them; \<open>\d\<close> the ten ASCII digits), and the locale is the C locale.
\<close>

definition is_digit :: "char \<Rightarrow> bool" where
  "is_digit c \<longleftrightarrow> CHR ''0'' \<le> c \<and> c \<le> CHR ''9''"

definition digit_val :: "char \<Rightarrow> nat" where
  "digit_val c = of_char c - 48"

definition is_space :: "char \<Rightarrow> bool" where
  "is_space c \<longleftrightarrow> c \<in> set [CHR '' '', CHR 0x09, CHR 0x0A, CHR 0x0B, CHR 0x0C, CHR 0x0D,
     CHR 0x1C, CHR 0x1D, CHR 0x1E, CHR 0x1F, CHR 0x85, CHR 0xA0]"

text \<open>The group \<open>I\<close> and the colon after it: the hour 1 to 12 and the rest of the string.\<close>

fun match_I :: "string \<Rightarrow> (nat \<times> string) option" where
  "match_I (c1 # c2 # c3 # rest) =
     (if c1 = CHR ''1'' \<and> CHR ''0'' \<le> c2 \<and> c2 \<le> CHR ''2'' \<and> c3 = CHR '':''
        then Some (10 + digit_val c2, rest)
      else if c1 = CHR ''0'' \<and> CHR ''1'' \<le> c2 \<and> c2 \<le> CHR ''9'' \<and> c3 = CHR '':''
        then Some (digit_val c2, rest)
      else if CHR ''1'' \<le> c1 \<and> c1 \<le> CHR ''9'' \<and> c2 = CHR '':''
        then Some (digit_val c1, c3 # rest)
      else None)"
| "match_I [c1, c2] =
     (if CHR ''1'' \<le> c1 \<and> c1 \<le> CHR ''9'' \<and> c2 = CHR '':''
        then Some (digit_val c1, [])
      else None)"
| "match_I _ = None"

text \<open>The group \<open>M\<close>: the minute 0 to 59 and the rest of the string.\<close>

fun match_M :: "string \<Rightarrow> (nat \<times> string) option" where
  "match_M (c1 # c2 # rest) =
     (if CHR ''0'' \<le> c1 \<and> c1 \<le> CHR ''5'' \<and> is_digit c2
        then Some (10 * digit_val c1 + digit_val c2, rest)
      else if is_digit c1 then Some (digit_val c1, c2 # rest)
      else None)"
| "match_M [c1] = (if is_digit c1 then Some (digit_val c1, []) else None)"
| "match_M [] = None"

text \<open>One or more white-space characters.\<close>

fun match_spaces :: "string \<Rightarrow> string option" where
  "match_spaces [] = None"
| "match_spaces (c # rest) = (if is_space c then Some (dropWhile is_space rest) else None)"

text \<open>The group \<open>p\<close> up to the end of the string: \<open>True\<close> for PM.\<close>

fun match_p :: "string \<Rightarrow> bool option" where
  "match_p [c1, c2] =
     (if c2 = CHR ''m'' \<or> c2 = CHR ''M'' then
        (if c1 = CHR ''a'' \<or> c1 = CHR ''A'' then Some False
         else if c1 = CHR ''p'' \<or> c1 = CHR ''P'' then Some True
         else None)
      else None)"
| "match_p _ = None"

text \<open>
  The hour on the 24-hour clock: 12 AM is 0, 12 PM is 12, another hour PM gains 12.
\<close>

definition hour_24 :: "nat \<Rightarrow> bool \<Rightarrow> nat" where
  "hour_24 h pm = (if pm then (if h = 12 then h else h + 12) else (if h = 12 then 0 else h))"

definition strptime_I_M_p :: "string \<Rightarrow> error + time" where
  "strptime_I_M_p s =
     (case match_I s of
        None \<Rightarrow> Inl ValueError
      | Some (h, r1) \<Rightarrow>
          (case match_M r1 of
             None \<Rightarrow> Inl ValueError
           | Some (m, r2) \<Rightarrow>
               (case match_spaces r2 of
                  None \<Rightarrow> Inl ValueError
                | Some r3 \<Rightarrow>
                    (case match_p r3 of
                       None \<Rightarrow> Inl ValueError
                     | Some pm \<Rightarrow>
                         Inr \<lparr>hour = hour_24 h pm, minute = m, second = 0,
                              microsecond = 0\<rparr>))))"

section \<open>Opening hours and the availability evaluator\<close>

text \<open>
  The choices of \<open>from_hour\<close> and \<open>to_hour\<close>: the 48 half-hour slots of a day, each as
  a pair of the stored value and its label (the same string).
\<close>

definition slot_time :: "nat \<Rightarrow> nat \<Rightarrow> time" where
  "slot_time h m = \<lparr>hour = h, minute = m, second = 0, microsecond = 0\<rparr>"

definition HOUR_OF_DAY_24 :: "(string \<times> string) list" where
  "HOUR_OF_DAY_24 =
     concat (map (\<lambda>h. map (\<lambda>m. (strftime_I_M_p (slot_time h m), strftime_I_M_p (slot_time h m)))
       [0, 30]) [0 ..< 24])"

definition DAYS :: "(int \<times> string) list" where
  "DAYS = [(1, ''Monday''), (2, ''Tuesday''), (3, ''Wednesday''), (4, ''Thursday''),
     (5, ''Friday''), (6, ''Saturday''), (7, ''Sunday'')]"

text \<open>A row of \<open>OpeningHour\<close>; \<open>vendor\<close> is the primary key of the vendor it belongs to.\<close>

record OpeningHour =
  vendor :: nat
  day :: int
  from_hour :: string
  to_hour :: string
  is_closed :: bool

text \<open>
  The loop of \<open>Vendor.is_open\<close> over the rows in the order the query yields them; the
  third argument is the variable \<open>is_open\<close>. \<open>break\<close> returns at once.
\<close>

fun is_open_loop :: "string \<Rightarrow> OpeningHour list \<Rightarrow> bool option \<Rightarrow> error + bool option" where
  "is_open_loop current_time [] is_open = Inr is_open"
| "is_open_loop current_time (i # rest) is_open =
     (if \<not> is_closed i then
        (case strptime_I_M_p (from_hour i) of
           Inl e \<Rightarrow> Inl e
         | Inr t1 \<Rightarrow>
             (case strptime_I_M_p (to_hour i) of
                Inl e \<Rightarrow> Inl e
              | Inr t2 \<Rightarrow>
                  (let start = time_str t1; end_str = time_str t2 in
                   if current_time > start \<and> current_time < end_str then Inr (Some True)
                   else is_open_loop current_time rest (Some False))))
      else is_open_loop current_time rest is_open)"

section \<open>Users\<close>

record User =
  user_pk :: nat
  first_name :: string
  last_name :: string
  username :: string
  email :: string
  phone_number :: string
  role :: "nat option"
  is_admin :: bool
  is_staff :: bool
  is_active :: bool
  is_superadmin :: bool

text \<open>
  \<open>User.get_role\<close>: for a role other than 1 and 2 the variable \<open>user_role\<close> is read
  before any assignment, an \<open>UnboundLocalError\<close>.
\<close>

definition get_role :: "User \<Rightarrow> error + string" where
  "get_role self =
     (if role self = Some 1 then Inr ''Vendor''
      else if role self = Some 2 then Inr ''Customer''
      else Inl UnboundLocalError)"

text \<open>
  \<open>detectUser\<close>: the redirect, or \<open>None\<close> where no branch returns (Python's implicit
  \<open>return None\<close>).
\<close>

definition detectUser :: "User \<Rightarrow> string option" where
  "detectUser user =
     (if role user = Some 1 then Some ''vendorDashboard''
      else if role user = Some 2 then Some ''custDashboard''
      else if role user = None \<and> is_superadmin user then Some ''/admin''
      else None)"

section \<open>Notifications\<close>

text \<open>The values that a template context holds here.\<close>

datatype pyval = PStr string | PList "string list" | PBool bool | PUser User | PNone

type_synonym template_context = "string \<rightharpoonup> pyval"

record EmailMessage =
  subject :: string
  body :: string
  from_email :: string
  to :: "string list"
  content_subtype :: string

text \<open>
  What \<open>send_notification\<close> takes from outside the repository: the setting
  \<open>DEFAULT_FROM_EMAIL\<close>, the template engine (\<open>render_to_string\<close>, which may raise) and
  the mail transport behind \<open>mail.send()\<close> (\<open>None\<close> when the call returns, the
  exception that it raises otherwise).
\<close>

record env =
  DEFAULT_FROM_EMAIL :: string
  render_to_string :: "string \<Rightarrow> template_context \<Rightarrow> error + string"
  transport :: "EmailMessage \<Rightarrow> error option"

text \<open>
  The recipients that \<open>EmailMessage(..., to=to_email)\<close> keeps of a value that is not a
  string: a false value gives no recipient, a list is copied, anything else is not
  iterable (\<open>TypeError\<close>).
\<close>

fun recipients :: "pyval \<Rightarrow> error + string list" where
  "recipients (PList xs) = Inr xs"
| "recipients PNone = Inr []"
| "recipients (PBool b) = (if b then Inl TypeError else Inr [])"
| "recipients (PUser u) = Inl TypeError"
| "recipients (PStr s) = Inl TypeError"

text \<open>
  \<open>send_notification\<close>; the last argument is the list of the messages on which
  \<open>mail.send()\<close> has been called and has returned so far, and the result is that list
  after this call.
\<close>

definition send_notification ::
    "env \<Rightarrow> string \<Rightarrow> string \<Rightarrow> template_context \<Rightarrow> EmailMessage list \<Rightarrow> error + EmailMessage list" where
  "send_notification E mail_subject mail_template ctx outbox =
     (case render_to_string E mail_template ctx of
        Inl e \<Rightarrow> Inl e
      | Inr message \<Rightarrow>
          (case ctx ''to_email'' of
             None \<Rightarrow> Inl KeyError
           | Some v \<Rightarrow>
               (case (case v of PStr a \<Rightarrow> Inr [a] | _ \<Rightarrow> recipients v) of
                  Inl e \<Rightarrow> Inl e
                | Inr to_email \<Rightarrow>
                    (let mail = \<lparr>subject = mail_subject, body = message,
                           from_email = DEFAULT_FROM_EMAIL E, to = to_email,
                           content_subtype = ''html''\<rparr>
                     in case transport E mail of
                          Some e \<Rightarrow> Inl e
                        | None \<Rightarrow> Inr (outbox @ [mail])))))"

section \<open>The object stores\<close>

text \<open>
  \<open>Model.objects.get(...)\<close> over the rows of a table: the one row that matches, and an
  exception when none or several do.
\<close>

definition objects_get :: "('a \<Rightarrow> bool) \<Rightarrow> 'a list \<Rightarrow> error + 'a" where
  "objects_get p table =
     (case filter p table of
        [] \<Rightarrow> Inl DoesNotExist
      | [x] \<Rightarrow> Inr x
      | _ \<Rightarrow> Inl MultipleObjectsReturned)"

definition next_pk :: "nat option list \<Rightarrow> nat" where
  "next_pk ks = Suc (fold max (map (\<lambda>k. case k of None \<Rightarrow> 0 | Some n \<Rightarrow> n) ks) 0)"

text \<open>
  \<open>super().save()\<close>: a record with no primary key is inserted under a new key; a record
  with one replaces the stored row of that key, or is inserted when there is none. The
  result is the record as saved and the table after it.
\<close>

definition Model_save ::
    "('a \<Rightarrow> nat option) \<Rightarrow> (nat \<Rightarrow> 'a \<Rightarrow> 'a) \<Rightarrow> 'a \<Rightarrow> 'a list \<Rightarrow> 'a \<times> 'a list" where
  "Model_save get_pk set_pk self table =
     (case get_pk self of
        None \<Rightarrow> (let saved = set_pk (next_pk (map get_pk table)) self in (saved, table @ [saved]))
      | Some k \<Rightarrow>
          (self, if Some k \<in> set (map get_pk table)
                 then map (\<lambda>r. if get_pk r = Some k then self else r) table
                 else table @ [self]))"

section \<open>Vendors\<close>

text \<open>
  A \<open>Vendor\<close>, with the fields that the methods below read; \<open>pk\<close> is \<open>None\<close> until
  the record has been saved.
\<close>

record Vendor =
  pk :: "nat option"
  user :: User
  vendor_name :: string
  vendor_slug :: string
  is_approved :: bool

text \<open>The vendor table and the messages on which \<open>mail.send()\<close> has returned so far.\<close>

record store =
  vendors :: "Vendor list"
  outbox :: "EmailMessage list"

text \<open>
  \<open>OpeningHour.objects.filter(vendor=self, day=today)\<close>. The table is given in the order
  in which the query yields its rows (the model orders them by day, then by
  \<open>from_hour\<close> descending), and the filter keeps that order.
\<close>

definition current_opening_hours :: "OpeningHour list \<Rightarrow> Vendor \<Rightarrow> int \<Rightarrow> OpeningHour list" where
  "current_opening_hours objects self today =
     filter (\<lambda>i. Some (vendor i) = pk self \<and> day i = today) objects"

text \<open>
  \<open>Vendor.is_open\<close>; \<open>today\<close> is \<open>date.today().isoweekday()\<close> and \<open>now\<close> the time of day
  of \<open>datetime.now()\<close>. The result is \<open>Some True\<close> (open), \<open>Some False\<close> (closed) or
  \<open>None\<close>.
\<close>

definition is_open :: "OpeningHour list \<Rightarrow> Vendor \<Rightarrow> int \<Rightarrow> time \<Rightarrow> error + bool option" where
  "is_open objects self today now =
     is_open_loop (strftime_H_M_S now) (current_opening_hours objects self today) None"






section \<open>User profiles\<close>

datatype 'f Point = Point 'f 'f

text \<open>
  A \<open>UserProfile\<close>; the type \<open>'f\<close> is that of Python's floats, which the derived point
  is made of.
\<close>

record 'f UserProfile =
  profile_pk :: "nat option"
  profile_user :: "User option"
  address :: "string option"
  country :: "string option"
  city :: "string option"
  pin_code :: "string option"
  latitude :: "string option"
  longitude :: "string option"
  location :: "'f Point option"

text \<open>The truth value of a nullable string: \<open>None\<close> and the empty string are false.\<close>

definition truthy :: "string option \<Rightarrow> bool" where
  "truthy v = (case v of None \<Rightarrow> False | Some s \<Rightarrow> s \<noteq> [])"

text \<open>
  \<open>UserProfile.save\<close>; \<open>float\<close> is Python's conversion of a string to a float, which
  raises \<open>ValueError\<close> on a string that is no number. The longitude is converted first.
\<close>

definition UserProfile_save ::
    "(string \<Rightarrow> error + 'f) \<Rightarrow> 'f UserProfile \<Rightarrow> 'f UserProfile list
       \<Rightarrow> error + 'f UserProfile \<times> 'f UserProfile list" where
  "UserProfile_save float self table =
     (case (latitude self, longitude self) of
        (Some lat, Some lng) \<Rightarrow>
          if truthy (latitude self) \<and> truthy (longitude self) then
            (case float lng of
               Inl e \<Rightarrow> Inl e
             | Inr x \<Rightarrow>
                 (case float lat of
                    Inl e \<Rightarrow> Inl e
                  | Inr y \<Rightarrow>
                      Inr (Model_save profile_pk (\<lambda>k p. p\<lparr>profile_pk := Some k\<rparr>)
                             (self\<lparr>location := Some (Point x y)\<rparr>) table)))
          else Inr (Model_save profile_pk (\<lambda>k p. p\<lparr>profile_pk := Some k\<rparr>) self table)
      | _ \<Rightarrow> Inr (Model_save profile_pk (\<lambda>k p. p\<lparr>profile_pk := Some k\<rparr>) self table))"

section \<open>Context processors\<close>

text \<open>\<open>request.user\<close>: the user who is logged in, or Django's \<open>AnonymousUser\<close>.\<close>

datatype request_user = AnonymousUser | Authenticated User

record HttpRequest =
  request_user :: request_user

text \<open>
  \<open>Vendor.objects.get(user=request.user)\<close> and \<open>UserProfile.objects.get(user=request.user)\<close>:
  the rows are matched on the user's primary key, and an \<open>AnonymousUser\<close> is no value
  for the lookup (\<open>TypeError\<close>).
\<close>

definition vendor_lookup :: "Vendor list \<Rightarrow> HttpRequest \<Rightarrow> error + Vendor" where
  "vendor_lookup table request =
     (case request_user request of
        AnonymousUser \<Rightarrow> Inl TypeError
      | Authenticated u \<Rightarrow> objects_get (\<lambda>v. user_pk (user v) = user_pk u) table)"

definition profile_lookup :: "'f UserProfile list \<Rightarrow> HttpRequest \<Rightarrow> error + 'f UserProfile" where
  "profile_lookup table request =
     (case request_user request of
        AnonymousUser \<Rightarrow> Inl TypeError
      | Authenticated u \<Rightarrow>
          objects_get (\<lambda>p. map_option user_pk (profile_user p) = Some (user_pk u)) table)"

text \<open>
  \<open>get_vendor\<close> and \<open>get_user_profile\<close>: the value of the one entry of the dictionary
  returned. The bare \<open>except\<close> catches every exception of the lookup.
\<close>

definition get_vendor :: "Vendor list \<Rightarrow> HttpRequest \<Rightarrow> error + Vendor option" where
  "get_vendor table request =
     Inr (case vendor_lookup table request of Inl e \<Rightarrow> None | Inr v \<Rightarrow> Some v)"

definition get_user_profile ::
    "'f UserProfile list \<Rightarrow> HttpRequest \<Rightarrow> error + 'f UserProfile option" where
  "get_user_profile table request =
     Inr (case profile_lookup table request of Inl e \<Rightarrow> None | Inr p \<Rightarrow> Some p)"

section \<open>Notions of the specification\<close>



text \<open>
  A row is well formed when both its hours parse. The time \<open>t\<close> is in the window of a
  row when it is strictly after the parsed \<open>from_hour\<close> and strictly before the parsed
  \<open>to_hour\<close>, in the order of times of day.
\<close>

definition well_formed :: "OpeningHour \<Rightarrow> bool" where
  "well_formed i \<longleftrightarrow> \<not> isl (strptime_I_M_p (from_hour i)) \<and> \<not> isl (strptime_I_M_p (to_hour i))"

definition in_window :: "time \<Rightarrow> OpeningHour \<Rightarrow> bool" where
  "in_window t i =
     (case (strptime_I_M_p (from_hour i), strptime_I_M_p (to_hour i)) of
        (Inr t1, Inr t2) \<Rightarrow> time_lt t1 t \<and> time_lt t t2
      | _ \<Rightarrow> False)"


section \<open>Example values\<close>

definition example_user :: "nat \<Rightarrow> string \<Rightarrow> nat option \<Rightarrow> bool \<Rightarrow> User" where
  "example_user k mail r sa =
     \<lparr>user_pk = k, first_name = ''Asha'', last_name = ''Rao'', username = mail, email = mail,
      phone_number = [], role = r, is_admin = sa, is_staff = sa, is_active = True,
      is_superadmin = sa\<rparr>"

definition example_env :: env where
  "example_env = \<lparr>DEFAULT_FROM_EMAIL = ''noreply@x.org'',
     render_to_string = (\<lambda>t c. Inr (''<p>'' @ t @ ''</p>'')),
     transport = (\<lambda>m. None)\<rparr>"

definition example_vendor :: "nat option \<Rightarrow> bool \<Rightarrow> Vendor" where
  "example_vendor k a =
     \<lparr>pk = k, user = example_user 1 ''v@x.org'' (Some 1) False, vendor_name = ''Dosa Hut'',
      vendor_slug = ''dosa-hut'', is_approved = a\<rparr>"


definition example_float :: "string \<Rightarrow> error + rat" where
  "example_float s =
     (if s = ''12.9'' then Inr 12.9 else if s = ''77.6'' then Inr 77.6 else Inl ValueError)"

definition example_profile :: "rat UserProfile" where
  "example_profile =
     \<lparr>profile_pk = None, profile_user = Some (example_user 2 ''c@x.org'' (Some 2) False),
      address = Some ''12 MG Road'', country = Some ''India'', city = Some ''Bengaluru'',
      pin_code = Some ''560001'', latitude = Some ''12.9'', longitude = Some ''77.6'',
      location = None\<rparr>"

definition example_hours :: "OpeningHour list" where
  "example_hours =
     [\<lparr>vendor = 1, day = 3, from_hour = ''09:00 AM'', to_hour = ''05:00 PM'', is_closed = False\<rparr>,
      \<lparr>vendor = 1, day = 7, from_hour = [], to_hour = [], is_closed = True\<rparr>,
      \<lparr>vendor = 2, day = 5, from_hour = ''10:00 AM'', to_hour = ''11:30 PM'', is_closed = False\<rparr>]"

definition example_now :: "nat \<Rightarrow> nat \<Rightarrow> nat \<Rightarrow> time" where
  "example_now h m s = \<lparr>hour = h, minute = m, second = s, microsecond = 0\<rparr>"

definition example_request :: "nat \<Rightarrow> HttpRequest" where
  "example_request k = \<lparr>request_user = Authenticated (example_user k ''n@x.org'' (Some 2) False)\<rparr>"


definition example_saved_vendor :: Vendor where
  "example_saved_vendor = example_vendor (Some 1) True"


definition example_probe :: time where
  "example_probe = \<lparr>hour = 9, minute = 0, second = 0, microsecond = 5\<rparr>"

section \<open>Roles and redirects\<close>

lemma example_user_simps:
  "role (example_user k mail r sa) = r"
  "is_superadmin (example_user k mail r sa) = sa"
  "email (example_user k mail r sa) = mail"
  "user_pk (example_user k mail r sa) = k"
  by (simp_all add: example_user_def)

text \<open>
  Claim C9. \<open>User.get_role\<close> is partial: it returns \<open>Vendor\<close> for role 1 and
  \<open>Customer\<close> for role 2, and for every other role (that of an admin, which is null,
  among them) it raises: the variable it returns was never assigned.
\<close>

theorem get_role_partial:
  "(role self = Some 1 \<longrightarrow> get_role self = Inr ''Vendor'') \<and>
   (role self = Some 2 \<longrightarrow> get_role self = Inr ''Customer'') \<and>
   (role self \<noteq> Some 1 \<and> role self \<noteq> Some 2 \<longrightarrow> get_role self = Inl UnboundLocalError)"
  by (simp add: get_role_def)

theorem get_role_partial_witness:
  "get_role (example_user 1 ''v@x.org'' (Some 1) False) = Inr ''Vendor'' \<and>
   get_role (example_user 2 ''c@x.org'' (Some 2) False) = Inr ''Customer'' \<and>
   get_role (example_user 3 ''a@x.org'' None True) = Inl UnboundLocalError"
  using get_role_partial [of "example_user 1 ''v@x.org'' (Some 1) False"]
    get_role_partial [of "example_user 2 ''c@x.org'' (Some 2) False"]
    get_role_partial [of "example_user 3 ''a@x.org'' None True"]
  by (simp add: example_user_simps)

text \<open>
  Claim C6. \<open>detectUser\<close> gives the vendor dashboard for role 1, the customer dashboard
  for role 2 and the admin route for a null role with \<open>is_superadmin\<close>; for every other
  combination it returns no route.
\<close>

theorem detectUser_routes:
  "(role u = Some 1 \<longrightarrow> detectUser u = Some ''vendorDashboard'') \<and>
   (role u = Some 2 \<longrightarrow> detectUser u = Some ''custDashboard'') \<and>
   (role u = None \<and> is_superadmin u \<longrightarrow> detectUser u = Some ''/admin'') \<and>
   (role u \<noteq> Some 1 \<and> role u \<noteq> Some 2 \<and> \<not> (role u = None \<and> is_superadmin u)
      \<longrightarrow> detectUser u = None)"
  by (simp add: detectUser_def)

theorem detectUser_routes_witness:
  "detectUser (example_user 1 ''v@x.org'' (Some 1) False) = Some ''vendorDashboard'' \<and>
   detectUser (example_user 2 ''c@x.org'' (Some 2) False) = Some ''custDashboard'' \<and>
   detectUser (example_user 3 ''a@x.org'' None True) = Some ''/admin'' \<and>
   detectUser (example_user 4 ''n@x.org'' None False) = None \<and>
   detectUser (example_user 5 ''o@x.org'' (Some 3) True) = None"
  using detectUser_routes [of "example_user 1 ''v@x.org'' (Some 1) False"]
    detectUser_routes [of "example_user 2 ''c@x.org'' (Some 2) False"]
    detectUser_routes [of "example_user 3 ''a@x.org'' None True"]
    detectUser_routes [of "example_user 4 ''n@x.org'' None False"]
    detectUser_routes [of "example_user 5 ''o@x.org'' (Some 3) True"]
  by (simp add: example_user_simps)

section \<open>The notification dispatcher\<close>

text \<open>
  Claim C7. When the \<open>to_email\<close> entry of the context is one address, the message goes
  to the one-element list of it; when it is a list of addresses, to that list as it is.
  In both cases the body is the named template rendered with the context and the
  content type is HTML. (The rendering and the transport are taken to succeed.)
\<close>

theorem send_notification_recipients:
  "(render_to_string E mail_template ctx = Inr message \<and> ctx ''to_email'' = Some (PStr a) \<and>
    transport E \<lparr>subject = mail_subject, body = message, from_email = DEFAULT_FROM_EMAIL E,
                 to = [a], content_subtype = ''html''\<rparr> = None
    \<longrightarrow> send_notification E mail_subject mail_template ctx sent =
          Inr (sent @ [\<lparr>subject = mail_subject, body = message,
                         from_email = DEFAULT_FROM_EMAIL E, to = [a],
                         content_subtype = ''html''\<rparr>])) \<and>
   (render_to_string E mail_template ctx = Inr message \<and>
    ctx ''to_email'' = Some (PList addrs) \<and>
    transport E \<lparr>subject = mail_subject, body = message, from_email = DEFAULT_FROM_EMAIL E,
                 to = addrs, content_subtype = ''html''\<rparr> = None
    \<longrightarrow> send_notification E mail_subject mail_template ctx sent =
          Inr (sent @ [\<lparr>subject = mail_subject, body = message,
                         from_email = DEFAULT_FROM_EMAIL E, to = addrs,
                         content_subtype = ''html''\<rparr>]))"
  by (simp add: send_notification_def)

theorem send_notification_recipients_witness:
  "send_notification example_env ''Hello'' ''mail.html'' [''to_email'' \<mapsto> PStr ''a@x.org''] [] =
     Inr [\<lparr>subject = ''Hello'', body = ''<p>mail.html</p>'', from_email = ''noreply@x.org'',
           to = [''a@x.org''], content_subtype = ''html''\<rparr>] \<and>
   send_notification example_env ''Hello'' ''mail.html''
       [''to_email'' \<mapsto> PList [''a@x.org'', ''b@x.org'']] [] =
     Inr [\<lparr>subject = ''Hello'', body = ''<p>mail.html</p>'', from_email = ''noreply@x.org'',
           to = [''a@x.org'', ''b@x.org''], content_subtype = ''html''\<rparr>]"
  using send_notification_recipients [where E = example_env and mail_template = "''mail.html''"
      and ctx = "[''to_email'' \<mapsto> PStr ''a@x.org'']" and message = "''<p>mail.html</p>''"
      and a = "''a@x.org''" and mail_subject = "''Hello''" and sent = "[]"]
    send_notification_recipients [where E = example_env and mail_template = "''mail.html''"
      and ctx = "[''to_email'' \<mapsto> PList [''a@x.org'', ''b@x.org'']]"
      and message = "''<p>mail.html</p>''" and addrs = "[''a@x.org'', ''b@x.org'']"
      and mail_subject = "''Hello''" and sent = "[]"]
  by (simp add: example_env_def)

section \<open>The approval notification on save\<close>








section \<open>No opening hours for the day\<close>

lemma is_open_loop_all_closed:
  "\<forall>i \<in> set rows. is_closed i \<Longrightarrow> is_open_loop cur rows acc = Inr acc"
  by (induction rows arbitrary: acc) simp_all

text \<open>
  Claim C2. When the vendor has no row for the current day, or every row of that day
  is closed, the result is \<open>None\<close> (undetermined), which is not \<open>Some False\<close>
  (closed).
\<close>

theorem is_open_undetermined:
  "current_opening_hours objects self today = [] \<or>
   (\<forall>i \<in> set (current_opening_hours objects self today). is_closed i) \<Longrightarrow>
   is_open objects self today now = Inr None \<and>
   is_open objects self today now \<noteq> Inr (Some False)"
  by (auto simp add: is_open_def is_open_loop_all_closed)

theorem is_open_undetermined_witness:
  "is_open example_hours (example_vendor (Some 1) True) 7 (example_now 12 0 0) = Inr None \<and>
   is_open example_hours (example_vendor (Some 1) True) 5 (example_now 12 0 0) = Inr None"
  using is_open_undetermined [of example_hours "example_vendor (Some 1) True" 7 "example_now 12 0 0"]
    is_open_undetermined [of example_hours "example_vendor (Some 1) True" 5 "example_now 12 0 0"]
  by (simp add: current_opening_hours_def example_hours_def example_vendor_def)

section \<open>Lookups that find nothing\<close>

lemma objects_get_none: "\<forall>x \<in> set table. \<not> p x \<Longrightarrow> objects_get p table = Inl DoesNotExist"
  by (simp add: objects_get_def filter_False)

text \<open>
  Claim C8. When the lookup of the vendor, or of the profile, of the current user
  raises (no row matches the user, for one), \<open>get_vendor\<close> and
  \<open>get_user_profile\<close> return \<open>None\<close> for the object and raise nothing.
\<close>

theorem lookup_failure_is_None:
  "(vendor_lookup vs request = Inl e \<longrightarrow> get_vendor vs request = Inr None) \<and>
   (profile_lookup ps request = Inl e' \<longrightarrow> get_user_profile ps request = Inr None) \<and>
   (request_user request = Authenticated u \<and> (\<forall>v \<in> set vs. user_pk (user v) \<noteq> user_pk u)
      \<longrightarrow> vendor_lookup vs request = Inl DoesNotExist \<and> get_vendor vs request = Inr None) \<and>
   (request_user request = Authenticated u \<and>
    (\<forall>p \<in> set ps. map_option user_pk (profile_user p) \<noteq> Some (user_pk u))
      \<longrightarrow> profile_lookup ps request = Inl DoesNotExist \<and> get_user_profile ps request = Inr None)"
  by (simp add: get_vendor_def get_user_profile_def vendor_lookup_def profile_lookup_def
      objects_get_none)

theorem lookup_failure_is_None_witness:
  "get_vendor [example_vendor (Some 1) False] (example_request 7) = Inr None \<and>
   get_user_profile [example_profile] (example_request 7) = Inr None \<and>
   get_vendor [example_vendor (Some 1) False] \<lparr>request_user = AnonymousUser\<rparr> = Inr None"
  using lookup_failure_is_None [where vs = "[example_vendor (Some 1) False]"
      and ps = "[example_profile]" and request = "example_request 7"
      and u = "example_user 7 ''n@x.org'' (Some 2) False"]
    lookup_failure_is_None [where vs = "[example_vendor (Some 1) False]"
      and ps = "[example_profile]" and request = "\<lparr>request_user = AnonymousUser\<rparr>"
      and e = TypeError]
  by (simp add: example_request_def example_vendor_def example_profile_def example_user_simps
      vendor_lookup_def)

section \<open>The derived location of a profile\<close>

lemma Model_save_fst_new:
  "get_pk self = None \<Longrightarrow> fst (Model_save get_pk set_pk self table) = set_pk (next_pk (map get_pk table)) self"
  by (simp add: Model_save_def Let_def)

lemma Model_save_fst_old:
  "get_pk self = Some k \<Longrightarrow> fst (Model_save get_pk set_pk self table) = self"
  by (simp add: Model_save_def)

lemma location_Model_save:
  "location (fst (Model_save profile_pk (\<lambda>k p. p\<lparr>profile_pk := Some k\<rparr>) self table)) = location self"
  by (cases "profile_pk self") (simp_all add: Model_save_fst_new Model_save_fst_old)

lemma Model_save_stored:
  assumes "\<And>k. get_pk (set_pk k self) = Some k"
  shows "fst (Model_save get_pk set_pk self table) \<in> set (snd (Model_save get_pk set_pk self table))"
proof (cases "get_pk self")
  case None
  then show ?thesis by (simp add: Model_save_def Let_def)
next
  case (Some k)
  show ?thesis
  proof (cases "Some k \<in> set (map get_pk table)")
    case True
    then obtain r where "r \<in> set table" "get_pk r = Some k" by auto
    then have "self \<in> (\<lambda>r. if get_pk r = Some k then self else r) ` set table"
      by (intro image_eqI [where x = r]) simp_all
    with Some True show ?thesis by (simp add: Model_save_def)
  next
    case False
    with Some show ?thesis by (simp add: Model_save_def)
  qed
qed

text \<open>
  Claim C5. Saving a profile whose latitude and longitude are both present (and convert
  to floats) sets its location to the point of the longitude and the latitude, in that
  order, and stores it; for latitude 12.9 and longitude 77.6 the point is (77.6, 12.9).
\<close>

theorem UserProfile_save_point:
  assumes "latitude self = Some lat" and "lat \<noteq> []"
    and "longitude self = Some lng" and "lng \<noteq> []"
    and "float lng = Inr x" and "float lat = Inr y"
  shows "\<exists>saved table'. UserProfile_save float self table = Inr (saved, table') \<and>
     location saved = Some (Point x y) \<and> saved \<in> set table'"
proof -
  let ?r = "Model_save profile_pk (\<lambda>k p. p\<lparr>profile_pk := Some k\<rparr>)
     (self\<lparr>location := Some (Point x y)\<rparr>) table"
  have "UserProfile_save float self table = Inr ?r"
    using assms by (simp add: UserProfile_save_def truthy_def)
  moreover have "location (fst ?r) = Some (Point x y)"
    by (simp add: location_Model_save)
  moreover have "fst ?r \<in> set (snd ?r)"
    by (rule Model_save_stored) simp
  ultimately show ?thesis
    by (metis prod.collapse)
qed

theorem UserProfile_save_point_witness:
  "\<exists>saved table'. UserProfile_save example_float example_profile [] = Inr (saved, table') \<and>
     location saved = Some (Point 77.6 12.9) \<and> saved \<in> set table'"
  using UserProfile_save_point [of example_profile "''12.9''" "''77.6''" example_float "77.6" "12.9" "[]"]
  by (simp add: example_profile_def example_float_def)

section \<open>Zero-padded strings order as the times do\<close>

lemma of_char_digit_char: "d < 10 \<Longrightarrow> of_char (digit_char d) = 48 + d"
  by (simp add: digit_char_def)

lemma digit_char_less: "d < 10 \<Longrightarrow> e < 10 \<Longrightarrow> digit_char d < digit_char e \<longleftrightarrow> d < e"
  by (simp add: less_char_def of_char_digit_char)

lemma digit_char_eq: "d < 10 \<Longrightarrow> e < 10 \<Longrightarrow> digit_char d = digit_char e \<longleftrightarrow> d = e"
proof
  assume "d < 10" "e < 10" "digit_char d = digit_char e"
  then have "(of_char (digit_char d) :: nat) = of_char (digit_char e)" by simp
  with \<open>d < 10\<close> \<open>e < 10\<close> show "d = e" by (simp add: of_char_digit_char)
qed simp

lemma pad_dec_2: "pad_dec 2 n = [digit_char (n div 10 mod 10), digit_char (n mod 10)]"
  by (simp add: numeral_2_eq_2)

lemma two_digits_order:
  fixes a b :: nat
  assumes "a < 100" "b < 100"
  shows "(a div 10 mod 10 < b div 10 mod 10 \<or>
          a div 10 mod 10 = b div 10 mod 10 \<and> (a mod 10 < b mod 10 \<or> a mod 10 = b mod 10 \<and> U))
         \<longleftrightarrow> (a < b \<or> a = b \<and> U)"
proof -
  define x y x' y' where "x = a div 10" and "y = a mod 10" and "x' = b div 10" and "y' = b mod 10"
  have a: "a = 10 * x + y" and b: "b = 10 * x' + y'"
    by (simp_all add: x_def y_def x'_def y'_def)
  have y: "y < 10" "y' < 10"
    by (simp_all add: y_def y'_def)
  have x: "a div 10 mod 10 = x" "b div 10 mod 10 = x'"
    using assms by (simp_all add: x_def x'_def)
  have "(x < x' \<or> x = x' \<and> (y < y' \<or> y = y' \<and> U)) \<longleftrightarrow> (a < b \<or> a = b \<and> U)"
    unfolding a b using y by (cases U) auto
  then show ?thesis
    by (simp only: x flip: y_def y'_def)
qed

lemma pad_dec_2_append_less:
  assumes "a < 100" "b < 100"
  shows "pad_dec 2 a @ u < pad_dec 2 b @ v \<longleftrightarrow> a < b \<or> a = b \<and> u < v"
proof -
  have "pad_dec 2 a @ u < pad_dec 2 b @ v \<longleftrightarrow>
      (a div 10 mod 10 < b div 10 mod 10 \<or>
       a div 10 mod 10 = b div 10 mod 10 \<and> (a mod 10 < b mod 10 \<or> a mod 10 = b mod 10 \<and> u < v))"
    by (simp add: pad_dec_2 digit_char_less digit_char_eq)
  also have "\<dots> \<longleftrightarrow> a < b \<or> a = b \<and> u < v"
    using assms by (rule two_digits_order)
  finally show ?thesis .
qed

lemma strftime_H_M_S_less:
  assumes "valid_time a" "valid_time b"
  shows "strftime_H_M_S a < strftime_H_M_S b \<longleftrightarrow>
     hour a < hour b \<or> hour a = hour b \<and>
       (minute a < minute b \<or> minute a = minute b \<and> second a < second b)"
proof -
  have h: "hour a < 100" "hour b < 100" "minute a < 100" "minute b < 100"
    "second a < 100" "second b < 100"
    using assms by (simp_all add: valid_time_def)
  have last: "pad_dec 2 (second a) < pad_dec 2 (second b) \<longleftrightarrow> second a < second b"
    using pad_dec_2_append_less [OF h(5,6), of "[]" "[]"] by simp
  show ?thesis
    unfolding strftime_H_M_S_def
    by (simp only: pad_dec_2_append_less [OF h(1,2)] pad_dec_2_append_less [OF h(3,4)]
        last append_Cons append_Nil Cons_less_Cons less_irrefl simp_thms)
qed

lemma time_str_whole: "microsecond t = 0 \<Longrightarrow> time_str t = strftime_H_M_S t"
  by (simp add: time_str_def)

lemma strftime_whole_seconds: "strftime_H_M_S (whole_seconds t) = strftime_H_M_S t"
  by (simp add: strftime_H_M_S_def whole_seconds_def)

lemma valid_whole_seconds: "valid_time t \<Longrightarrow> valid_time (whole_seconds t)"
  by (simp add: valid_time_def whole_seconds_def)

lemma time_str_less:
  assumes "valid_time a" "valid_time b" "microsecond a = 0" "microsecond b = 0"
  shows "time_str a < time_str b \<longleftrightarrow> time_lt a b"
  using assms by (simp add: time_str_whole strftime_H_M_S_less time_lt_def)

lemma current_time_greater:
  assumes "valid_time now" "valid_time t" "microsecond t = 0"
  shows "strftime_H_M_S now > time_str t \<longleftrightarrow> time_lt t (whole_seconds now)"
  using assms
  by (simp add: time_str_whole strftime_H_M_S_less time_lt_def whole_seconds_def)

lemma current_time_less:
  assumes "valid_time now" "valid_time t" "microsecond t = 0"
  shows "strftime_H_M_S now < time_str t \<longleftrightarrow> time_lt (whole_seconds now) t"
  using assms
  by (simp add: time_str_whole strftime_H_M_S_less time_lt_def whole_seconds_def)

section \<open>Parsed hours and the loop of the evaluator\<close>

lemma match_I_range: "match_I s = Some (h, r) \<Longrightarrow> 1 \<le> h \<and> h \<le> 12"
  by (cases s rule: match_I.cases)
    (auto split: if_splits simp: digit_val_def less_eq_char_def)

lemma match_M_range: "match_M s = Some (m, r) \<Longrightarrow> m < 60"
  by (cases s rule: match_M.cases)
    (auto split: if_splits simp: digit_val_def is_digit_def less_eq_char_def)

lemma hour_24_range: "1 \<le> h \<Longrightarrow> h \<le> 12 \<Longrightarrow> hour_24 h pm < 24"
  by (simp add: hour_24_def)

lemma strptime_I_M_p_valid:
  assumes "strptime_I_M_p s = Inr t"
  shows "valid_time t \<and> second t = 0 \<and> microsecond t = 0"
proof -
  from assms obtain h r1 m r2 pm where
    I: "match_I s = Some (h, r1)" and M: "match_M r1 = Some (m, r2)"
    and t: "t = \<lparr>hour = hour_24 h pm, minute = m, second = 0, microsecond = 0\<rparr>"
    by (auto simp: strptime_I_M_p_def split: option.splits prod.splits)
  from I have "hour_24 h pm < 24"
    using match_I_range hour_24_range by blast
  moreover from M have "m < 60" by (rule match_M_range)
  ultimately show ?thesis by (simp add: t valid_time_def)
qed

lemma is_open_loop_step:
  assumes "valid_time now" "\<not> is_closed i" "well_formed i"
  shows "is_open_loop (strftime_H_M_S now) (i # rest) acc =
     (if in_window (whole_seconds now) i then Inr (Some True)
      else is_open_loop (strftime_H_M_S now) rest (Some False))"
proof -
  from assms(3) obtain t1 t2 where
    p: "strptime_I_M_p (from_hour i) = Inr t1" "strptime_I_M_p (to_hour i) = Inr t2"
    by (auto simp: well_formed_def isl_def) (metis sum.exhaust sum.collapse(2))
  have v: "valid_time t1" "microsecond t1 = 0" "valid_time t2" "microsecond t2 = 0"
    using strptime_I_M_p_valid [OF p(1)] strptime_I_M_p_valid [OF p(2)] by simp_all
  have "time_str t1 < strftime_H_M_S now \<longleftrightarrow> time_lt t1 (whole_seconds now)"
    using assms(1) v(1,2) by (rule current_time_greater)
  moreover have "strftime_H_M_S now < time_str t2 \<longleftrightarrow> time_lt (whole_seconds now) t2"
    using assms(1) v(3,4) by (rule current_time_less)
  ultimately show ?thesis
    using assms(2) p by (simp add: in_window_def)
qed

lemma is_open_loop_result:
  assumes "valid_time now" "\<forall>i \<in> set rows. \<not> is_closed i \<longrightarrow> well_formed i"
  shows "is_open_loop (strftime_H_M_S now) rows acc =
     Inr (if \<exists>i \<in> set rows. \<not> is_closed i \<and> in_window (whole_seconds now) i then Some True
          else if \<exists>i \<in> set rows. \<not> is_closed i then Some False
          else acc)"
  using assms(2)
proof (induction rows arbitrary: acc)
  case Nil
  show ?case by simp
next
  case (Cons i rest)
  show ?case
  proof (cases "is_closed i")
    case True
    with Cons show ?thesis by simp
  next
    case False
    with Cons.prems have "well_formed i" by simp
    from is_open_loop_step [OF assms(1) False this]
    show ?thesis
      using Cons False by auto
  qed
qed

section \<open>The availability window\<close>

lemma example_slots:
  "''09:00 AM'' \<in> set (map fst HOUR_OF_DAY_24)"
  "''05:00 PM'' \<in> set (map fst HOUR_OF_DAY_24)"
  by code_simp+

lemma example_parses:
  "strptime_I_M_p ''09:00 AM'' = Inr (slot_time 9 0)"
  "strptime_I_M_p ''05:00 PM'' = Inr (slot_time 17 0)"
  "strptime_I_M_p ''12:00 PM'' = Inr (slot_time 12 0)"
  "strptime_I_M_p ''02:00 PM'' = Inr (slot_time 14 0)"
  by code_simp+

lemma time_lt_irrefl: "\<not> time_lt t t"
  by (simp add: time_lt_def)

lemma in_window_strict:
  assumes "strptime_I_M_p (from_hour i) = Inr t \<or> strptime_I_M_p (to_hour i) = Inr t"
  shows "\<not> in_window t i"
  using assms
proof
  assume "strptime_I_M_p (from_hour i) = Inr t"
  then show ?thesis
    by (simp add: in_window_def time_lt_irrefl split: sum.splits)
next
  assume "strptime_I_M_p (to_hour i) = Inr t"
  then show ?thesis
    by (simp add: in_window_def time_lt_irrefl split: sum.splits)
qed

text \<open>
  Claim C1, as amended. For the rows of the current day whose hours parse, \<open>is_open\<close>
  reports open exactly when some row that is not closed has the current time of day,
  cut to whole seconds as \<open>current_time\<close> holds it, strictly between its
  \<open>from_hour\<close> and its \<open>to_hour\<close>; otherwise it reports closed if some row is not
  closed, and nothing if none is. A time equal to the \<open>from_hour\<close> or to the
  \<open>to_hour\<close> of a row is not in its window. For the row 09:00 AM to 05:00 PM: not
  open at 09:00:00, open at 12:00:00, not open at 17:00:00.
\<close>

theorem is_open_strict_window:
  assumes "valid_time now"
    and "\<forall>i \<in> set (current_opening_hours objects self today). \<not> is_closed i \<longrightarrow> well_formed i"
  shows "is_open objects self today now =
     Inr (if \<exists>i \<in> set (current_opening_hours objects self today).
               \<not> is_closed i \<and> in_window (whole_seconds now) i then Some True
          else if \<exists>i \<in> set (current_opening_hours objects self today). \<not> is_closed i
          then Some False
          else None) \<and>
     (\<forall>i. strptime_I_M_p (from_hour i) = Inr (whole_seconds now) \<or>
          strptime_I_M_p (to_hour i) = Inr (whole_seconds now) \<longrightarrow>
          \<not> in_window (whole_seconds now) i)"
  using is_open_loop_result [OF assms] in_window_strict
  unfolding is_open_def by blast

lemma example_rows:
  "current_opening_hours example_hours example_saved_vendor 3 =
     [\<lparr>vendor = 1, day = 3, from_hour = ''09:00 AM'', to_hour = ''05:00 PM'', is_closed = False\<rparr>]"
  by (simp add: current_opening_hours_def example_hours_def example_vendor_def
      example_saved_vendor_def)

lemma example_now_valid:
  "valid_time (example_now 9 0 0)" "valid_time (example_now 12 0 0)"
  "valid_time (example_now 13 0 0)" "valid_time (example_now 17 0 0)"
  by (simp_all add: example_now_def valid_time_def)

lemma is_open_whole_seconds:
  "is_open objects self today (whole_seconds now) = is_open objects self today now"
  by (simp add: is_open_def strftime_whole_seconds)

theorem is_open_strict_window_witness:
  "is_open example_hours example_saved_vendor 3 (example_now 9 0 0) = Inr (Some False) \<and>
   is_open example_hours example_saved_vendor 3 (example_now 12 0 0) = Inr (Some True) \<and>
   is_open example_hours example_saved_vendor 3 (example_now 17 0 0) = Inr (Some False)"
proof -
  have wf: "\<forall>i \<in> set (current_opening_hours example_hours example_saved_vendor 3).
      \<not> is_closed i \<longrightarrow> well_formed i"
    by (simp add: example_rows well_formed_def example_parses)
  show ?thesis
    using is_open_strict_window [OF example_now_valid(1) wf, THEN conjunct1]
      is_open_strict_window [OF example_now_valid(2) wf, THEN conjunct1]
      is_open_strict_window [OF example_now_valid(4) wf, THEN conjunct1]
    by (simp add: example_rows in_window_def example_parses slot_time_def time_lt_def
        whole_seconds_def example_now_def)
qed

text \<open>
  Claim C1 as stated fails for a time with a fraction of a second: five microseconds
  after 09:00:00 the time is strictly inside the window of the row 09:00 AM to 05:00 PM,
  and \<open>is_open\<close> reports closed, since \<open>current_time\<close> holds whole seconds only.
\<close>

theorem is_open_inside_window_counterexample:
  "current_opening_hours example_hours example_saved_vendor 3 =
     [\<lparr>vendor = 1, day = 3, from_hour = ''09:00 AM'', to_hour = ''05:00 PM'', is_closed = False\<rparr>] \<and>
   strptime_I_M_p ''09:00 AM'' = Inr (slot_time 9 0) \<and>
   strptime_I_M_p ''05:00 PM'' = Inr (slot_time 17 0) \<and>
   valid_time example_probe \<and>
   time_lt (slot_time 9 0) example_probe \<and>
   time_lt example_probe (slot_time 17 0) \<and>
   is_open example_hours example_saved_vendor 3 example_probe = Inr (Some False)"
proof -
  have v: "valid_time example_probe"
    by (simp add: example_probe_def valid_time_def)
  have wf: "\<forall>i \<in> set (current_opening_hours example_hours example_saved_vendor 3).
      \<not> is_closed i \<longrightarrow> well_formed i"
    by (simp add: example_rows well_formed_def example_parses)
  have "is_open example_hours example_saved_vendor 3 example_probe = Inr (Some False)"
    unfolding is_open_def is_open_loop_result [OF v wf]
    by (simp add: example_rows in_window_def example_parses slot_time_def time_lt_def
        whole_seconds_def example_probe_def)
  moreover have "time_lt (slot_time 9 0) example_probe" "time_lt example_probe (slot_time 17 0)"
    by (simp_all add: slot_time_def time_lt_def example_probe_def)
  ultimately show ?thesis
    using v example_rows example_parses(1,2) by simp
qed

section \<open>The order of the rows\<close>


















section \<open>The half-hour slots\<close>

lemma slot_roundtrip_all:
  "list_all (\<lambda>h. list_all
      (\<lambda>m. strptime_I_M_p (strftime_I_M_p (slot_time h m)) = Inr (slot_time h m)) [0, 30])
    [0 ..< 24]"
  by code_simp

lemma slot_roundtrip:
  assumes "h < 24" and "m = 0 \<or> m = 30"
  shows "strptime_I_M_p (strftime_I_M_p (slot_time h m)) = Inr (slot_time h m)"
proof -
  from assms(1) have "h \<in> set [0 ..< 24]" by simp
  moreover from assms(2) have "m \<in> set [0, 30]" by auto
  ultimately show ?thesis
    using slot_roundtrip_all unfolding list_all_iff by blast
qed

lemma slots_fst:
  "map fst HOUR_OF_DAY_24 =
     concat (map (\<lambda>h. [strftime_I_M_p (slot_time h 0), strftime_I_M_p (slot_time h 30)])
       [0 ..< 24])"
  by (simp add: HOUR_OF_DAY_24_def map_concat comp_def)

lemma slot_member:
  assumes "h < 24" and "m = 0 \<or> m = 30"
  shows "strftime_I_M_p (slot_time h m) \<in> set (map fst HOUR_OF_DAY_24)"
  using assms unfolding slots_fst by auto

lemma slots_set:
  "set (map fst HOUR_OF_DAY_24) =
     {strftime_I_M_p (slot_time h m) | h m. h < 24 \<and> (m = 0 \<or> m = 30)}"
proof (intro set_eqI iffI)
  fix a
  assume "a \<in> set (map fst HOUR_OF_DAY_24)"
  then obtain h where "h < 24"
    and "a = strftime_I_M_p (slot_time h 0) \<or> a = strftime_I_M_p (slot_time h 30)"
    unfolding slots_fst by auto
  then show "a \<in> {strftime_I_M_p (slot_time h m) | h m. h < 24 \<and> (m = 0 \<or> m = 30)}"
    by blast
next
  fix a
  assume "a \<in> {strftime_I_M_p (slot_time h m) | h m. h < 24 \<and> (m = 0 \<or> m = 30)}"
  then obtain h m where "h < 24" "m = 0 \<or> m = 30" "a = strftime_I_M_p (slot_time h m)"
    by blast
  then show "a \<in> set (map fst HOUR_OF_DAY_24)"
    using slot_member by simp
qed

lemma slot_time_valid:
  assumes "h < 24" and "m = 0 \<or> m = 30"
  shows "valid_time (slot_time h m)" and "microsecond (slot_time h m) = 0"
  using assms by (auto simp: slot_time_def valid_time_def)

lemma is_open_single_slot_row:
  assumes "h1 < 24" and "m1 = 0 \<or> m1 = 30" and "h2 < 24" and "m2 = 0 \<or> m2 = 30"
    and "valid_time now"
    and "current_opening_hours objects self today = [i]" and "\<not> is_closed i"
    and "from_hour i = strftime_I_M_p (slot_time h1 m1)"
    and "to_hour i = strftime_I_M_p (slot_time h2 m2)"
  shows "is_open objects self today now =
     Inr (Some (time_lt (slot_time h1 m1) (whole_seconds now) \<and>
                time_lt (whole_seconds now) (slot_time h2 m2)))"
proof -
  have p: "strptime_I_M_p (from_hour i) = Inr (slot_time h1 m1)"
    "strptime_I_M_p (to_hour i) = Inr (slot_time h2 m2)"
    using assms(8,9) slot_roundtrip [OF assms(1,2)] slot_roundtrip [OF assms(3,4)] by simp_all
  then have "well_formed i" by (simp add: well_formed_def)
  then have wf: "\<forall>j \<in> set [i]. \<not> is_closed j \<longrightarrow> well_formed j" by simp
  have w: "in_window (whole_seconds now) i \<longleftrightarrow>
      time_lt (slot_time h1 m1) (whole_seconds now) \<and> time_lt (whole_seconds now) (slot_time h2 m2)"
    using p by (simp add: in_window_def)
  show ?thesis
    unfolding is_open_def assms(6) is_open_loop_result [OF assms(5) wf]
    using assms(7) w by simp
qed

text \<open>
  Claim C10, as amended. The values of \<open>HOUR_OF_DAY_24\<close> are the strings of the
  times \<open>h:m\<close> with \<open>h < 24\<close> and \<open>m\<close> 0 or 30, and each parses to its own time.
  For any two slots and any current time, comparing the \<open>HH:MM:SS\<close> strings as
  \<open>is_open\<close> does gives the same result as comparing the slots' times with the
  current time in whole seconds (and with each other), and \<open>is_open\<close> on a single
  row from one slot to the other is open exactly when the current time in whole seconds
  is strictly between the two times.
\<close>

theorem slot_strings_compare_as_times:
  assumes "h1 < 24" and "m1 = 0 \<or> m1 = 30" and "h2 < 24" and "m2 = 0 \<or> m2 = 30"
    and "valid_time now"
  shows "set (map fst HOUR_OF_DAY_24) =
       {strftime_I_M_p (slot_time h m) | h m. h < 24 \<and> (m = 0 \<or> m = 30)} \<and>
     strptime_I_M_p (strftime_I_M_p (slot_time h1 m1)) = Inr (slot_time h1 m1) \<and>
     strptime_I_M_p (strftime_I_M_p (slot_time h2 m2)) = Inr (slot_time h2 m2) \<and>
     (strftime_H_M_S now > time_str (slot_time h1 m1)
        \<longleftrightarrow> time_lt (slot_time h1 m1) (whole_seconds now)) \<and>
     (strftime_H_M_S now < time_str (slot_time h1 m1)
        \<longleftrightarrow> time_lt (whole_seconds now) (slot_time h1 m1)) \<and>
     (strftime_H_M_S now > time_str (slot_time h2 m2)
        \<longleftrightarrow> time_lt (slot_time h2 m2) (whole_seconds now)) \<and>
     (strftime_H_M_S now < time_str (slot_time h2 m2)
        \<longleftrightarrow> time_lt (whole_seconds now) (slot_time h2 m2)) \<and>
     (time_str (slot_time h1 m1) < time_str (slot_time h2 m2)
        \<longleftrightarrow> time_lt (slot_time h1 m1) (slot_time h2 m2)) \<and>
     (current_opening_hours objects self today = [i] \<and> \<not> is_closed i \<and>
      from_hour i = strftime_I_M_p (slot_time h1 m1) \<and>
      to_hour i = strftime_I_M_p (slot_time h2 m2)
        \<longrightarrow> is_open objects self today now =
              Inr (Some (time_lt (slot_time h1 m1) (whole_seconds now) \<and>
                         time_lt (whole_seconds now) (slot_time h2 m2))))"
proof -
  note v1 = slot_time_valid [OF assms(1,2)] and v2 = slot_time_valid [OF assms(3,4)]
  show ?thesis
    using slots_set slot_roundtrip [OF assms(1,2)] slot_roundtrip [OF assms(3,4)]
      current_time_greater [OF assms(5) v1] current_time_less [OF assms(5) v1]
      current_time_greater [OF assms(5) v2] current_time_less [OF assms(5) v2]
      time_str_less [OF v1(1) v2(1) v1(2) v2(2)]
      is_open_single_slot_row [OF assms, of objects self today i]
    by blast
qed

lemma example_slot_strings:
  "strftime_I_M_p (slot_time 9 0) = ''09:00 AM''"
  "strftime_I_M_p (slot_time 17 0) = ''05:00 PM''"
  by code_simp+

theorem slot_strings_compare_as_times_witness:
  "set (map fst HOUR_OF_DAY_24) =
       {strftime_I_M_p (slot_time h m) | h m. h < 24 \<and> (m = 0 \<or> m = 30)} \<and>
   strptime_I_M_p (strftime_I_M_p (slot_time 9 0)) = Inr (slot_time 9 0) \<and>
   strptime_I_M_p (strftime_I_M_p (slot_time 17 0)) = Inr (slot_time 17 0) \<and>
   (strftime_H_M_S (example_now 12 0 0) > time_str (slot_time 9 0)
      \<longleftrightarrow> time_lt (slot_time 9 0) (whole_seconds (example_now 12 0 0))) \<and>
   (strftime_H_M_S (example_now 12 0 0) < time_str (slot_time 9 0)
      \<longleftrightarrow> time_lt (whole_seconds (example_now 12 0 0)) (slot_time 9 0)) \<and>
   (strftime_H_M_S (example_now 12 0 0) > time_str (slot_time 17 0)
      \<longleftrightarrow> time_lt (slot_time 17 0) (whole_seconds (example_now 12 0 0))) \<and>
   (strftime_H_M_S (example_now 12 0 0) < time_str (slot_time 17 0)
      \<longleftrightarrow> time_lt (whole_seconds (example_now 12 0 0)) (slot_time 17 0)) \<and>
   (time_str (slot_time 9 0) < time_str (slot_time 17 0)
      \<longleftrightarrow> time_lt (slot_time 9 0) (slot_time 17 0)) \<and>
   is_open example_hours example_saved_vendor 3 (example_now 12 0 0) =
     Inr (Some (time_lt (slot_time 9 0) (whole_seconds (example_now 12 0 0)) \<and>
                time_lt (whole_seconds (example_now 12 0 0)) (slot_time 17 0)))"
proof -
  have h: "(9::nat) < 24" "(0::nat) = 0 \<or> (0::nat) = 30" "(17::nat) < 24"
    by simp_all
  show ?thesis
    using slot_strings_compare_as_times [OF h(1,2) h(3,2) example_now_valid(2),
        of example_hours example_saved_vendor 3
          "\<lparr>vendor = 1, day = 3, from_hour = ''09:00 AM'', to_hour = ''05:00 PM'',
            is_closed = False\<rparr>"]
    by (simp add: example_rows example_slot_strings)
qed

text \<open>
  Claim C10 as stated (any probe time, compared directly) fails for a time with a
  fraction of a second: five microseconds after 09:00:00 the time is after the slot
  09:00 AM, and its string is not greater than the string of the slot.
\<close>

theorem slot_string_order_counterexample:
  "strftime_I_M_p (slot_time 9 0) \<in> set (map fst HOUR_OF_DAY_24) \<and>
   strptime_I_M_p (strftime_I_M_p (slot_time 9 0)) = Inr (slot_time 9 0) \<and>
   valid_time example_probe \<and>
   time_lt (slot_time 9 0) example_probe \<and>
   \<not> strftime_H_M_S example_probe > time_str (slot_time 9 0)"
proof -
  have h: "(9::nat) < 24" "(0::nat) = 0 \<or> (0::nat) = 30"
    by simp_all
  have v: "valid_time example_probe"
    by (simp add: example_probe_def valid_time_def)
  have "time_lt (slot_time 9 0) example_probe"
    by (simp add: slot_time_def time_lt_def example_probe_def)
  moreover have "\<not> strftime_H_M_S example_probe > time_str (slot_time 9 0)"
    unfolding current_time_greater [OF v slot_time_valid [OF h]]
    by (simp add: slot_time_def time_lt_def example_probe_def whole_seconds_def)
  ultimately show ?thesis
    using slot_member [OF h] slot_roundtrip [OF h] v by simp
qed

end
